theory Spec2Isabelle
  imports Complex_Main
begin

section \<open>JavaScript values used by the Slack webhook handler\<close>

text \<open>
  The handler is TypeScript running on Node. Its strings are modelled as \<open>string\<close>, a
  list of bytes holding the UTF-8 encoding (so \<open>length\<close> is the byte length that
  \<^verbatim>\<open>Buffer.from(s, 'utf8')\<close> has). The regular expression and \<^verbatim>\<open>split('=')\<close> of the
  source only distinguish ASCII characters (letters, digits, underscore, space, the
  double quote and the equals sign); every unit of a non-ASCII character falls in the
  class "anything else" in both encodings, so tokens are cut at the same places.

  A value that may be \<^verbatim>\<open>undefined\<close> is an \<open>option\<close> with \<open>None\<close> for \<^verbatim>\<open>undefined\<close>.
\<close>

definition falsy :: "string option \<Rightarrow> bool" where
  \<comment> \<open>\<^verbatim>\<open>!v\<close> for a value that is a string or undefined\<close>
  "falsy v = (case v of None \<Rightarrow> True | Some s \<Rightarrow> s = [])"

definition templ :: "string option \<Rightarrow> string" where
  \<comment> \<open>\<^verbatim>\<open>${v}\<close> inside a template literal\<close>
  "templ v = (case v of None \<Rightarrow> ''undefined'' | Some s \<Rightarrow> s)"

fun split :: "char \<Rightarrow> string \<Rightarrow> string list" where
  \<comment> \<open>\<^verbatim>\<open>s.split(sep)\<close> for a one-character separator: never empty, cut at every separator\<close>
  "split sep [] = [[]]"
| "split sep (c # cs) =
     (if c = sep then [] # split sep cs
      else (case split sep cs of [] \<Rightarrow> [[c]] | p # ps \<Rightarrow> (c # p) # ps))"

definition destructure2 :: "'a list \<Rightarrow> 'a option \<times> 'a option" where
  \<comment> \<open>\<^verbatim>\<open>const [a, b] = xs\<close>: missing positions are undefined, further ones are dropped\<close>
  "destructure2 xs =
     (case xs of [] \<Rightarrow> (None, None) | [a] \<Rightarrow> (Some a, None) | a # b # _ \<Rightarrow> (Some a, Some b))"

fun arrayToString :: "string list \<Rightarrow> string" where
  \<comment> \<open>an array inside a template literal: the elements joined by commas\<close>
  "arrayToString [] = []"
| "arrayToString [x] = x"
| "arrayToString (x # y # ys) = x @ '','' @ arrayToString (y # ys)"

subsection \<open>Numbers\<close>

text \<open>
  A JavaScript number is modelled as an exact real, or one of the three special values.
  The only arithmetic of the handler is one subtraction from an integer, an absolute
  value and a comparison with 300.
\<close>

datatype number = NaN | Infinity | NegInfinity | Num real

fun minus_number :: "number \<Rightarrow> number \<Rightarrow> number" where
  "minus_number NaN _ = NaN"
| "minus_number _ NaN = NaN"
| "minus_number Infinity Infinity = NaN"
| "minus_number Infinity _ = Infinity"
| "minus_number NegInfinity NegInfinity = NaN"
| "minus_number NegInfinity _ = NegInfinity"
| "minus_number (Num a) Infinity = NegInfinity"
| "minus_number (Num a) NegInfinity = Infinity"
| "minus_number (Num a) (Num b) = Num (a - b)"

fun Math_abs :: "number \<Rightarrow> number" where
  "Math_abs NaN = NaN"
| "Math_abs Infinity = Infinity"
| "Math_abs NegInfinity = Infinity"
| "Math_abs (Num a) = Num \<bar>a\<bar>"

fun less_number :: "number \<Rightarrow> number \<Rightarrow> bool" where
  \<comment> \<open>\<^verbatim>\<open>a < b\<close>: false as soon as one side is NaN\<close>
  "less_number NaN _ = False"
| "less_number _ NaN = False"
| "less_number Infinity _ = False"
| "less_number NegInfinity NegInfinity = False"
| "less_number NegInfinity _ = True"
| "less_number (Num a) Infinity = True"
| "less_number (Num a) NegInfinity = False"
| "less_number (Num a) (Num b) = (a < b)"

section \<open>The command tokenizer\<close>

text \<open>
  \<^verbatim>\<open>command.match(/[\w]+=[""][^""]+[""]|[^ """]+/g) || []\<close>

  The pattern has two alternatives, tried in this order at every position:
  \<^enum> one or more word characters, an equals sign, a double quote, one or more characters
    other than the double quote, a double quote;
  \<^enum> one or more characters other than space and double quote.
  Both repetitions are greedy, and giving characters back never helps (the character
  after a shorter run is a word character, respectively not a double quote), so each
  alternative is decided by the maximal run. With the \<^verbatim>\<open>g\<close> flag the result is the list
  of whole matches, left to right, each search starting where the last match ended;
  a position where neither alternative matches is skipped.
\<close>

definition isWordChar :: "char \<Rightarrow> bool" where
  \<comment> \<open>\<^verbatim>\<open>\w\<close> without the unicode flag\<close>
  "isWordChar c =
     (let n = (of_char c :: nat) in
      (97 \<le> n \<and> n \<le> 122) \<or> (65 \<le> n \<and> n \<le> 90) \<or> (48 \<le> n \<and> n \<le> 57) \<or> n = 95)"

definition notQuote :: "char \<Rightarrow> bool" where
  "notQuote c = (c \<noteq> CHR 0x22)"

definition notSpaceOrQuote :: "char \<Rightarrow> bool" where
  "notSpaceOrQuote c = (c \<noteq> CHR '' '' \<and> c \<noteq> CHR 0x22)"

definition matchQuoted :: "string \<Rightarrow> (string \<times> string) option" where
  \<comment> \<open>first alternative at the start of the input: the match and what follows it\<close>
  "matchQuoted s =
     (let w = takeWhile isWordChar s in
      if w = [] then None
      else (case dropWhile isWordChar s of
              e # q # r \<Rightarrow>
                if e = CHR ''='' \<and> q = CHR 0x22 then
                  (let v = takeWhile notQuote r in
                   if v = [] then None
                   else (case dropWhile notQuote r of
                           q' # r' \<Rightarrow> Some (w @ [e, q] @ v @ [q'], r')
                         | [] \<Rightarrow> None))
                else None
            | _ \<Rightarrow> None))"

definition matchBare :: "string \<Rightarrow> (string \<times> string) option" where
  \<comment> \<open>second alternative at the start of the input\<close>
  "matchBare s =
     (let t = takeWhile notSpaceOrQuote s in
      if t = [] then None else Some (t, dropWhile notSpaceOrQuote s))"

definition matchToken :: "string \<Rightarrow> (string \<times> string) option" where
  "matchToken s = (case matchQuoted s of Some m \<Rightarrow> Some m | None \<Rightarrow> matchBare s)"

function tokenize :: "string \<Rightarrow> string list" where
  "tokenize [] = []"
| "tokenize (c # cs) =
     (case matchToken (c # cs) of
        Some (t, r) \<Rightarrow> t # tokenize r
      | None \<Rightarrow> tokenize cs)"
  by pat_completeness auto
termination
proof (relation "measure length")
  show "wf (measure length)" by simp
next
  fix c :: char and cs :: string and x2 :: "string \<times> string" and t r :: string
  assume m: "matchToken (c # cs) = Some x2" and x2: "(t, r) = x2"
  let ?s = "c # cs"
  have "length r < length ?s"
  proof (cases "matchQuoted ?s")
    case (Some m')
    with m x2 have a: "matchQuoted ?s = Some (t, r)"
      by (simp add: matchToken_def)
    then obtain r0 where d1: "dropWhile isWordChar ?s = CHR ''='' # CHR 0x22 # r0"
      and rest: "\<exists>q'. dropWhile notQuote r0 = q' # r"
      by (auto simp: matchQuoted_def Let_def split: if_splits list.splits)
    have "length (dropWhile notQuote r0) \<le> length r0"
      by (rule length_dropWhile_le)
    with rest have "length r < length r0" by auto
    moreover have "length (dropWhile isWordChar ?s) \<le> length ?s"
      by (rule length_dropWhile_le)
    ultimately show ?thesis using d1 by simp
  next
    case None
    with m x2 have "matchBare ?s = Some (t, r)"
      by (simp add: matchToken_def)
    then have t: "takeWhile notSpaceOrQuote ?s \<noteq> []"
      and r: "r = dropWhile notSpaceOrQuote ?s"
      by (auto simp: matchBare_def Let_def split: if_splits)
    have "length (takeWhile notSpaceOrQuote ?s) + length (dropWhile notSpaceOrQuote ?s)
            = length ?s"
      by (metis length_append takeWhile_dropWhile_id)
    with t r show ?thesis
      by (cases "takeWhile notSpaceOrQuote ?s") auto
  qed
  then show "(r, c # cs) \<in> measure length" by simp
next
  fix c :: char and cs :: string
  show "(cs, c # cs) \<in> measure length" by simp
qed

section \<open>Data model\<close>

text \<open>
  The field names are those of the source; a field whose name is a keyword here or is
  used by two types carries a prefix (\<open>status_text\<close> for \<^verbatim>\<open>text\<close> of a status,
  \<open>ev_type\<close> and \<open>ev_text\<close> for \<^verbatim>\<open>type\<close> and \<^verbatim>\<open>text\<close> of an event, \<open>body_type\<close> for
  \<^verbatim>\<open>type\<close> of the request body, \<open>http_body\<close> for \<^verbatim>\<open>body\<close> of the response).
\<close>

record SlackStatus =
  status_text :: "string option"
  emoji :: "string option"

record StatusMapping =
  calendarText :: string
  slackStatus :: SlackStatus

datatype 'a nullable = Undefined | Null | Value 'a

text \<open>
  Modelled from the spec: the declaration of \<^verbatim>\<open>UserSettings\<close> lives in the settings
  service (\<^verbatim>\<open>./services/dynamo\<close>), outside the handler's file. Section 3 of the
  specification gives its three fields: the credential \<^verbatim>\<open>slackToken\<close>, the ordered
  sequence \<^verbatim>\<open>statusMappings\<close> (which may be absent) and \<^verbatim>\<open>defaultStatus\<close> (a status,
  null, or absent).
\<close>

record UserSettings =
  slackToken :: "string option"
  statusMappings :: "StatusMapping list option"
  defaultStatus :: "SlackStatus nullable"

record UserProfile =
  email :: string

record ApiGatewayEvent =
  headers :: "string \<rightharpoonup> string"
  body :: string

text \<open>The fields of \<^verbatim>\<open>SlackEvent\<close> that the handler reads.\<close>

record SlackEvent =
  ev_type :: string
  subtype :: "string option"
  ev_text :: string
  user :: "string option"
  channel :: string
  channel_type :: string

text \<open>
  The parsed request body has type \<^verbatim>\<open>any\<close>; the handler reads \<^verbatim>\<open>type\<close>,
  \<^verbatim>\<open>challenge\<close> and \<^verbatim>\<open>event\<close> from it, each of which may be missing. \<^verbatim>\<open>JSON.parse\<close>
  may also return \<^verbatim>\<open>null\<close>, whose properties cannot be read.
\<close>

record RequestBody =
  body_type :: "string option"
  challenge :: "string option"
  event :: "SlackEvent option"

datatype json = JNull | JObject RequestBody

datatype SlackResponse = EMPTY_RESPONSE_BODY | Challenge "string option"

text \<open>The object that the handler hands to \<^verbatim>\<open>JSON.stringify\<close> for the response body.\<close>

datatype response_object = ErrorObject string | ResponseObject SlackResponse

record HttpResponse =
  statusCode :: nat
  http_body :: response_object

section \<open>Exceptions, collaborators and promises\<close>

datatype exn = SyntaxError | TypeError | RangeError | Rejected string

text \<open>
  The calls that leave the handler: the secret store, the chat platform and the
  settings store. A run of an async function carries the list of calls made so far and
  either resolves with a value (\<open>Inr\<close>) or rejects with an exception (\<open>Inl\<close>).
  Console output is not modelled.
\<close>

datatype call =
    GetSlackSecretWithKey string
  | GetUserProfile string string
  | GetSettingsForUsers "string list"
  | UpsertStatusMappings UserSettings
  | UpsertDefaultStatus UserSettings
  | PostMessage string string string

type_synonym 'a promise = "call list \<Rightarrow> (exn + 'a) \<times> call list"

definition resolve :: "'a \<Rightarrow> 'a promise" where
  "resolve x tr = (Inr x, tr)"

definition reject :: "exn \<Rightarrow> 'a promise" where
  "reject e tr = (Inl e, tr)"

definition await :: "'a promise \<Rightarrow> ('a \<Rightarrow> 'b promise) \<Rightarrow> 'b promise" where
  "await m f tr = (case m tr of (Inl e, tr') \<Rightarrow> (Inl e, tr') | (Inr x, tr') \<Rightarrow> f x tr')"

definition perform :: "call \<Rightarrow> exn + 'a \<Rightarrow> 'a promise" where
  \<comment> \<open>a collaborator call: it is recorded, and its outcome is the collaborator's answer\<close>
  "perform c answer tr = (answer, tr @ [c])"

text \<open>
  What the handler's file imports or takes from the runtime: the collaborators of the
  other modules, the install URL, the clock, and the library functions (JSON parsing,
  string to number and back, lower-casing, HMAC-SHA256 with a hex digest).

  \<open>inheritedMember\<close> stands for the members that the command registry, an object
  literal, inherits from \<^verbatim>\<open>Object.prototype\<close>: the test \<^verbatim>\<open>subcommand in commandHandlerMap\<close>
  also succeeds for their names, and the registry entry that is then called is the
  inherited member. It gives, for such a name, what calling the member as a handler
  produces (the text sent back, or the exception).
\<close>

record env =
  JSON_parse :: "string \<Rightarrow> json option"
  StringToNumber :: "string \<Rightarrow> number"
  NumberToString :: "number \<Rightarrow> string"
  toLowerCase :: "string \<Rightarrow> string"
  hmac_sha256_hex :: "string \<Rightarrow> string \<Rightarrow> string"
  inheritedMember :: "string \<Rightarrow> (UserSettings \<Rightarrow> string list \<Rightarrow> exn + string) option"
  getTime :: int
  slackInstallUrl :: string
  getSlackSecretWithKey :: "string \<Rightarrow> exn + string"
  getUserProfile :: "string \<Rightarrow> string \<Rightarrow> exn + UserProfile option"
  getSettingsForUsers :: "string list \<Rightarrow> exn + UserSettings list"
  upsertStatusMappings :: "UserSettings \<Rightarrow> exn + UserSettings"
  upsertDefaultStatus :: "UserSettings \<Rightarrow> exn + UserSettings"
  postMessage :: "string \<Rightarrow> string \<Rightarrow> string \<Rightarrow> exn + unit"

section \<open>The request authenticator\<close>

definition MILLIS_IN_SEC :: real where
  "MILLIS_IN_SEC = 1000"

definition FIVE_MIN_IN_SEC :: real where
  "FIVE_MIN_IN_SEC = 300"

definition unaryPlus :: "env \<Rightarrow> string option \<Rightarrow> number" where
  \<comment> \<open>\<^verbatim>\<open>+v\<close>: undefined converts to NaN, a string as the runtime converts it\<close>
  "unaryPlus env v = (case v of None \<Rightarrow> NaN | Some s \<Rightarrow> StringToNumber env s)"

definition validateTimestamp :: "env \<Rightarrow> number \<Rightarrow> bool" where
  "validateTimestamp env slackRequestTimestampInSec =
     (let currentTimeInSec = Num (of_int \<lfloor>of_int (getTime env) / MILLIS_IN_SEC\<rfloor>)
      in less_number (Math_abs (minus_number currentTimeInSec slackRequestTimestampInSec))
           (Num FIVE_MIN_IN_SEC))"

definition timingSafeEqual :: "string \<Rightarrow> string option \<Rightarrow> bool promise" where
  \<comment> \<open>\<^verbatim>\<open>crypto.timingSafeEqual(Buffer.from(a, 'utf8'), Buffer.from(b, 'utf8'))\<close>:
      \<^verbatim>\<open>Buffer.from(undefined)\<close> throws, and so do buffers of different byte lengths\<close>
  "timingSafeEqual a b =
     (case b of
        None \<Rightarrow> reject TypeError
      | Some b' \<Rightarrow> if length a \<noteq> length b' then reject RangeError else resolve (a = b'))"

definition validateSlackRequest :: "env \<Rightarrow> ApiGatewayEvent \<Rightarrow> bool promise" where
  "validateSlackRequest env ev =
     (let requestTimestamp = unaryPlus env (headers ev ''X-Slack-Request-Timestamp'') in
      if \<not> validateTimestamp env requestTimestamp then resolve False
      else
        await (perform (GetSlackSecretWithKey ''signing-secret'')
                 (getSlackSecretWithKey env ''signing-secret''))
          (\<lambda>signingSecret.
             case headers ev ''X-Slack-Signature'' of
               None \<Rightarrow> reject TypeError
             | Some requestSignature \<Rightarrow>
                 (case destructure2 (split CHR ''='' requestSignature) of
                    (version, slackHash) \<Rightarrow>
                      (let calculatedSignature =
                             hmac_sha256_hex env signingSecret
                               (templ version @ '':'' @ NumberToString env requestTimestamp
                                  @ '':'' @ body ev)
                       in timingSafeEqual calculatedSignature slackHash))))"

section \<open>The command handlers\<close>

definition serializeStatusMappings :: "UserSettings \<Rightarrow> string list" where
  \<open>serializeStatusMappings userSettings =
     (case statusMappings userSettings of
        Some mappings \<Rightarrow>
          map (\<lambda>m. ''\<newline>'' @ templ (emoji (slackStatus m)) @ '' `'' @ calendarText m @ ''` ''
                    @ (if \<not> falsy (status_text (slackStatus m))
                       then ''uses status `'' @ templ (status_text (slackStatus m)) @ ''`''
                       else []))
            mappings
      | None \<Rightarrow> [])\<close>

definition handleShow :: "UserSettings \<Rightarrow> string list \<Rightarrow> (string \<times> UserSettings) promise" where
  \<open>handleShow userSettings args =
     (let serialized = serializeStatusMappings userSettings in
      if serialized \<noteq> []
      then resolve (''Here's what I've got for you:'' @ arrayToString serialized, userSettings)
      else resolve (''You don't have any status mappings yet. Try `set`'', userSettings))\<close>

text \<open>
  The argument loop of \<^verbatim>\<open>set\<close> and \<^verbatim>\<open>set-default\<close>:
  \<^verbatim>\<open>for (let arg of args) { const [key, value] = arg.split('='); if (key in defaults) defaults[key] = value; }\<close>
  \<open>defaults\<close> maps each of its own keys to a string or undefined. (A name inherited
  from \<^verbatim>\<open>Object.prototype\<close> passes the test as well; the assignment then concerns a
  property other than the ones read afterwards, so it is left out.)
\<close>

definition readArgs ::
  "(string \<rightharpoonup> string option) \<Rightarrow> string list \<Rightarrow> (string \<rightharpoonup> string option)" where
  "readArgs defaults args =
     fold (\<lambda>arg d.
             case destructure2 (split CHR ''='' arg) of
               (Some key, val) \<Rightarrow> if d key \<noteq> None then d(key \<mapsto> val) else d
             | (None, _) \<Rightarrow> d)
       args defaults"

definition getProp :: "(string \<rightharpoonup> string option) \<Rightarrow> string \<Rightarrow> string option" where
  "getProp d key = (case d key of None \<Rightarrow> None | Some v \<Rightarrow> v)"

fun assignSlackStatus ::
  "(StatusMapping \<Rightarrow> bool) \<Rightarrow> SlackStatus \<Rightarrow> StatusMapping list \<Rightarrow> StatusMapping list" where
  \<comment> \<open>\<^verbatim>\<open>existingMeeting.slackStatus = slackStatus\<close> on the element that \<^verbatim>\<open>find\<close> returned,
      the first one satisfying the predicate\<close>
  "assignSlackStatus p st [] = []"
| "assignSlackStatus p st (m # ms) =
     (if p m then m\<lparr>slackStatus := st\<rparr> # ms else m # assignSlackStatus p st ms)"

definition mappingsOf :: "UserSettings \<Rightarrow> StatusMapping list" where
  \<comment> \<open>\<^verbatim>\<open>userSettings.statusMappings\<close> once \<^verbatim>\<open>set\<close> has put \<^verbatim>\<open>[]\<close> in place of a missing field\<close>
  "mappingsOf userSettings = (case statusMappings userSettings of None \<Rightarrow> [] | Some ms \<Rightarrow> ms)"

definition setDefaults :: "string \<rightharpoonup> string option" where
  \<comment> \<open>\<^verbatim>\<open>{ meeting: '', message: '', emoji: '' }\<close>\<close>
  "setDefaults = [''meeting'' \<mapsto> Some [], ''message'' \<mapsto> Some [], ''emoji'' \<mapsto> Some []]"

definition setGuidance :: string where
  \<open>setGuidance = ''You must specify a meeting using `meeting="My Meeting"`.''\<close>

definition handleSet ::
  "env \<Rightarrow> UserSettings \<Rightarrow> string list \<Rightarrow> (string \<times> UserSettings) promise" where
  \<open>handleSet env userSettings args =
     (let defaults = readArgs setDefaults args in
      case getProp defaults ''meeting'' of
        None \<Rightarrow> resolve (setGuidance, userSettings)
      | Some meeting \<Rightarrow>
          if meeting = [] then resolve (setGuidance, userSettings)
          else
            (let mappings = mappingsOf userSettings;
                 isExisting = (\<lambda>m. toLowerCase env (calendarText m) = toLowerCase env meeting);
                 slackStatus =
                   \<lparr>status_text = (if \<not> falsy (getProp defaults ''message'')
                                   then getProp defaults ''message'' else Some meeting),
                    emoji = getProp defaults ''emoji''\<rparr>;
                 mappings' =
                   (case find isExisting mappings of
                      Some existingMeeting \<Rightarrow> assignSlackStatus isExisting slackStatus mappings
                    | None \<Rightarrow> mappings @ [\<lparr>calendarText = meeting, slackStatus = slackStatus\<rparr>]);
                 userSettings' = userSettings\<lparr>statusMappings := Some mappings'\<rparr>
             in
             await (perform (UpsertStatusMappings userSettings')
                      (upsertStatusMappings env userSettings'))
               (\<lambda>updated.
                  resolve (''Here's what I got: '' @ arrayToString (serializeStatusMappings updated),
                           userSettings'))))\<close>

definition handleRemove :: "UserSettings \<Rightarrow> string list \<Rightarrow> (string \<times> UserSettings) promise" where
  \<comment> \<open>\<^verbatim>\<open>// TODO: implement\<close>\<close>
  "handleRemove userSettings args = resolve (''Not implemented'', userSettings)"

definition handleSetDefault ::
  "env \<Rightarrow> UserSettings \<Rightarrow> string list \<Rightarrow> (string \<times> UserSettings) promise" where
  \<open>handleSetDefault env userSettings args =
     (let defaults = readArgs [''message'' \<mapsto> Some [], ''emoji'' \<mapsto> Some []] args;
          message = getProp defaults ''message'';
          emoji' = getProp defaults ''emoji''
      in
      if falsy message \<and> falsy emoji'
      then resolve (''Please set a default `message` and/or `emoji`.'', userSettings)
      else
        (let userSettings' =
               userSettings\<lparr>defaultStatus := Value \<lparr>status_text = message, emoji = emoji'\<rparr>\<rparr>
         in
         await (perform (UpsertDefaultStatus userSettings') (upsertDefaultStatus env userSettings'))
           (\<lambda>_. resolve (''Your default status is '' @ templ emoji' @ '' `'' @ templ message @ ''`.'',
                         userSettings'))))\<close>

definition handleRemoveDefault ::
  "env \<Rightarrow> UserSettings \<Rightarrow> string list \<Rightarrow> (string \<times> UserSettings) promise" where
  "handleRemoveDefault env userSettings args =
     (let userSettings' = userSettings\<lparr>defaultStatus := Null\<rparr> in
      await (perform (UpsertDefaultStatus userSettings') (upsertDefaultStatus env userSettings'))
        (\<lambda>_. resolve (''Your default status has been removed.'', userSettings')))"

definition commandHandlerMap ::
  "env \<Rightarrow> string \<Rightarrow> (UserSettings \<Rightarrow> string list \<Rightarrow> (string \<times> UserSettings) promise) option" where
  "commandHandlerMap env command =
     (if command = ''show'' then Some handleShow
      else if command = ''set'' then Some (handleSet env)
      else if command = ''remove'' then Some handleRemove
      else if command = ''set-default'' then Some (handleSetDefault env)
      else if command = ''remove-default'' then Some (handleRemoveDefault env)
      else None)"

section \<open>The event router\<close>

definition sendMessage :: "env \<Rightarrow> string \<Rightarrow> string \<Rightarrow> string \<Rightarrow> SlackResponse promise" where
  \<comment> \<open>the closure \<^verbatim>\<open>sendMessage\<close>, with the \<^verbatim>\<open>botToken\<close> and \<^verbatim>\<open>channel\<close> it captures\<close>
  "sendMessage env botToken channel' message =
     await (perform (PostMessage botToken message channel')
              (postMessage env botToken message channel'))
       (\<lambda>_. resolve EMPTY_RESPONSE_BODY)"

definition helpMessage :: string where
  \<open>helpMessage =
     '':shrug: Maybe try one of these:\<newline>  - `help`\<newline>  - `show`\<newline>  - `set`\<newline>  - `set-default`\<newline>  - `remove`\<newline>  - `remove-default`''\<close>

definition authorizeMessage :: "env \<Rightarrow> string" where
  \<open>authorizeMessage env =
     ''Hello :wave:\<newline>\<newline>You need to authorize me before we can do anything else: ''
       @ slackInstallUrl env\<close>

definition handleSlackEventCallback :: "env \<Rightarrow> RequestBody \<Rightarrow> SlackResponse promise" where
  \<open>handleSlackEventCallback env callback =
     (case event callback of
        None \<Rightarrow> reject TypeError
      | Some e \<Rightarrow>
          if ev_type e \<noteq> ''message'' \<or> channel_type e \<noteq> ''im'' then resolve EMPTY_RESPONSE_BODY
          else if subtype e = Some ''bot_message'' \<or> falsy (user e) then resolve EMPTY_RESPONSE_BODY
          else \<comment> \<open>from here on \<^verbatim>\<open>user\<close> is a non-empty string, which \<open>templ (user e)\<close> reads\<close>
            await (perform (GetSlackSecretWithKey ''bot-token'')
                     (getSlackSecretWithKey env ''bot-token''))
              (\<lambda>botToken.
                 await (perform (GetUserProfile botToken (templ (user e)))
                          (getUserProfile env botToken (templ (user e))))
                   (\<lambda>userProfile.
                      case userProfile of
                        None \<Rightarrow>
                          sendMessage env botToken (channel e)
                            ''Something went wrong fetching your user profile. Maybe try again?''
                      | Some profile \<Rightarrow>
                          await (perform (GetSettingsForUsers [email profile])
                                   (getSettingsForUsers env [email profile]))
                            (\<lambda>userSettings.
                               case userSettings of
                                 [] \<Rightarrow> sendMessage env botToken (channel e) (authorizeMessage env)
                               | settings # _ \<Rightarrow>
                                   if falsy (slackToken settings) then
                                     sendMessage env botToken (channel e) (authorizeMessage env)
                                   else
                                     (case tokenize (ev_text e) of
                                        [] \<Rightarrow> sendMessage env botToken (channel e) helpMessage
                                      | subcommand # args \<Rightarrow>
                                          (case commandHandlerMap env subcommand of
                                             Some commandHandler \<Rightarrow>
                                               await (commandHandler settings args)
                                                 (\<lambda>(message, _).
                                                    sendMessage env botToken (channel e) message)
                                           | None \<Rightarrow>
                                               (case inheritedMember env subcommand of
                                                  Some member \<Rightarrow>
                                                    (case member settings args of
                                                       Inl exn \<Rightarrow> reject exn
                                                     | Inr message \<Rightarrow>
                                                         sendMessage env botToken (channel e) message)
                                                | None \<Rightarrow>
                                                    sendMessage env botToken (channel e)
                                                      helpMessage)))))))\<close>

definition handler :: "env \<Rightarrow> ApiGatewayEvent \<Rightarrow> HttpResponse promise" where
  "handler env ev =
     (case JSON_parse env (body ev) of
        None \<Rightarrow> reject SyntaxError
      | Some parsed \<Rightarrow>
          await (validateSlackRequest env ev)
            (\<lambda>valid.
               if \<not> valid then
                 resolve \<lparr>statusCode = 400, http_body = ErrorObject ''Request was invalid''\<rparr>
               else
                 (case parsed of
                    JNull \<Rightarrow> reject TypeError
                  | JObject requestBody \<Rightarrow>
                      await (if body_type requestBody = Some ''url_verification''
                             then resolve (Challenge (challenge requestBody))
                             else if body_type requestBody = Some ''event_callback''
                             then handleSlackEventCallback env requestBody
                             else resolve EMPTY_RESPONSE_BODY)
                        (\<lambda>responseBody.
                           resolve \<lparr>statusCode = 200,
                                    http_body = ResponseObject responseBody\<rparr>))))"

section \<open>Example requests\<close>

text \<open>
  A concrete runtime for the examples below. Its library functions give the answers of
  the real ones on the inputs that the examples use (the digests are the HMAC-SHA256
  values of the three signed strings under the secret \<^verbatim>\<open>shhh\<close>); \<open>asciiLower\<close> lowers
  the ASCII letters. The current time is 1600000000 seconds and 123 milliseconds.
\<close>

definition demo_body :: string where
  \<open>demo_body =
     ''{"type":"event_callback","event":{"type":"message","channel_type":"im","user":"U1","channel":"D1","text":"show"}}''\<close>

definition demo_event :: SlackEvent where
  "demo_event =
     \<lparr>ev_type = ''message'', subtype = None, ev_text = ''show'', user = Some ''U1'',
      channel = ''D1'', channel_type = ''im''\<rparr>"

definition demo_callback :: RequestBody where
  "demo_callback =
     \<lparr>body_type = Some ''event_callback'', challenge = None, event = Some demo_event\<rparr>"

definition demo_settings :: UserSettings where
  "demo_settings =
     \<lparr>slackToken = Some ''xoxp-1'',
      statusMappings =
        Some [\<lparr>calendarText = ''Standup'',
               slackStatus = \<lparr>status_text = Some ''Standup'', emoji = Some []\<rparr>\<rparr>],
      defaultStatus = Undefined\<rparr>"

definition asciiLower :: "string \<Rightarrow> string" where
  "asciiLower s =
     map (\<lambda>c. case map_of (zip ''ABCDEFGHIJKLMNOPQRSTUVWXYZ'' ''abcdefghijklmnopqrstuvwxyz'') c of
                Some l \<Rightarrow> l
              | None \<Rightarrow> c) s"

definition demo_digest :: string where
  "demo_digest = ''4ef3577ce01a49a1d12de881a2c0a355a9913688fe29114741a938b1f36f4a74''"

definition stale_digest :: string where
  "stale_digest = ''4aaee388917b9bd797d9d32c180df04622aad970f1cd6a1621f157dad032f24a''"

definition demo_env :: env where
  "demo_env =
     \<lparr>JSON_parse = (\<lambda>s. if s = demo_body then Some (JObject demo_callback)
                         else if s = ''null'' then Some JNull else None),
      StringToNumber = (\<lambda>s. if s = ''1600000000'' then Num 1600000000
                             else if s = ''1599999700'' then Num 1599999700 else NaN),
      NumberToString = (\<lambda>n. if n = Num 1600000000 then ''1600000000''
                             else if n = Num 1599999700 then ''1599999700'' else ''NaN''),
      toLowerCase = asciiLower,
      hmac_sha256_hex =
        (\<lambda>key message.
           if key = ''shhh'' \<and> message = ''v0:1600000000:'' @ demo_body then demo_digest
           else if key = ''shhh'' \<and> message = ''v0:1599999700:'' @ demo_body then stale_digest
           else if key = ''shhh'' \<and> message = ''v0deadbeef:1600000000:'' @ demo_body
           then ''a0754e6be1e133f7841721cc6ca3a0ff0369328f62e4238fd04ccfbd56a771d7''
           else replicate 64 (CHR ''0'')),
      inheritedMember = (\<lambda>name. None),
      getTime = 1600000000123,
      slackInstallUrl = ''https://example.com/install'',
      getSlackSecretWithKey =
        (\<lambda>key. if key = ''signing-secret'' then Inr ''shhh''
               else if key = ''bot-token'' then Inr ''xoxb-1''
               else Inl (Rejected ''no such secret'')),
      getUserProfile = (\<lambda>token userId. Inr (Some \<lparr>email = ''u1@example.com''\<rparr>)),
      getSettingsForUsers = (\<lambda>emails. Inr [demo_settings]),
      upsertStatusMappings = (\<lambda>settings. Inr settings),
      upsertDefaultStatus = (\<lambda>settings. Inr settings),
      postMessage = (\<lambda>token message channel'. Inr ())\<rparr>"

definition failing_env :: env where
  \<comment> \<open>the same runtime with a chat platform that refuses the message\<close>
  "failing_env = demo_env\<lparr>postMessage := (\<lambda>token message channel'. Inl (Rejected ''ratelimited''))\<rparr>"

definition request :: "string \<Rightarrow> string \<Rightarrow> string \<Rightarrow> ApiGatewayEvent" where
  \<comment> \<open>a request with the two Slack headers\<close>
  "request timestamp signature payload =
     \<lparr>headers = [''X-Slack-Request-Timestamp'' \<mapsto> timestamp, ''X-Slack-Signature'' \<mapsto> signature],
      body = payload\<rparr>"

definition team_sync_command :: string where
  \<comment> \<open>the message text \<^verbatim>\<open>set meeting="Team Sync" emoji=\<close> followed by U+1F4C5 (four bytes)\<close>
  \<open>team_sync_command =
     ''set meeting="Team Sync" emoji='' @ [CHR 0xF0, CHR 0x9F, CHR 0x93, CHR 0x85]\<close>

text \<open>
  What section 4.3 of the specification asks of \<^verbatim>\<open>remove\<close>, for comparison with the
  handler: the mappings whose \<^verbatim>\<open>calendarText\<close> equals the meeting name up to case are
  deleted, the others stay.
\<close>

definition removeMapping_spec :: "(string \<Rightarrow> string) \<Rightarrow> string \<Rightarrow> UserSettings \<Rightarrow> UserSettings" where
  "removeMapping_spec lower meeting userSettings =
     userSettings\<lparr>statusMappings :=
       map_option (filter (\<lambda>m. lower (calendarText m) \<noteq> lower meeting))
         (statusMappings userSettings)\<rparr>"

definition caseInsensitivelyDistinct :: "env \<Rightarrow> StatusMapping list \<Rightarrow> bool" where
  \<comment> \<open>no two mappings have \<^verbatim>\<open>calendarText\<close> values with the same lower-case form\<close>
  "caseInsensitivelyDistinct env ms = distinct (map (\<lambda>m. toLowerCase env (calendarText m)) ms)"

section \<open>Properties of the authenticator\<close>

lemmas promise_defs = resolve_def reject_def await_def perform_def

lemma validateTimestamp_NaN: "\<not> validateTimestamp env NaN"
  by (simp add: validateTimestamp_def)

text \<open>
  C1. The claim: a request whose signature header contains no equals sign is treated as
  a signature mismatch, \<open>validateSlackRequest\<close> returning false instead of raising.
  The code misses this case when the timestamp is fresh. For the request below (the
  timestamp is the current second, the signature header is \<^verbatim>\<open>v0deadbeef\<close>) the split
  yields one piece, \<^verbatim>\<open>slackHash\<close> is undefined, and after the signing secret has been
  fetched \<^verbatim>\<open>Buffer.from(undefined, 'utf8')\<close> throws: the promise rejects with a
  TypeError and no boolean is returned.
\<close>

theorem signature_without_equals_throws:
  "validateSlackRequest demo_env (request ''1600000000'' ''v0deadbeef'' demo_body) []
     = (Inl TypeError, [GetSlackSecretWithKey ''signing-secret''])"
  by (simp add: validateSlackRequest_def validateTimestamp_def unaryPlus_def request_def
      demo_env_def promise_defs timingSafeEqual_def destructure2_def MILLIS_IN_SEC_def
      FIVE_MIN_IN_SEC_def)

text \<open>
  The same happens for every header without an equals sign, once the timestamp is
  fresh and the secret store answers.
\<close>

lemma split_without_separator: "sep \<notin> set s \<Longrightarrow> split sep s = [s]"
  by (induction s) auto

lemma signature_without_equals_rejects:
  assumes "validateTimestamp env (unaryPlus env (headers ev ''X-Slack-Request-Timestamp''))"
    and "getSlackSecretWithKey env ''signing-secret'' = Inr secret"
    and "headers ev ''X-Slack-Signature'' = Some requestSignature"
    and "CHR ''='' \<notin> set requestSignature"
  shows "validateSlackRequest env ev tr
           = (Inl TypeError, tr @ [GetSlackSecretWithKey ''signing-secret''])"
  using assms
  by (simp add: validateSlackRequest_def promise_defs split_without_separator
      destructure2_def timingSafeEqual_def)

text \<open>
  C6. Whenever the timestamp \<open>t\<close> of the request and the current time in seconds (the
  floor of the clock's milliseconds over 1000) are 300 seconds or more apart, the
  authenticator returns false, and it does so before looking at the signature or
  fetching the secret: the statement holds for every signature header, a correct one
  included.
\<close>

theorem stale_timestamp_rejected:
  assumes "headers ev ''X-Slack-Request-Timestamp'' = Some ts"
    and "StringToNumber env ts = Num t"
    and "300 \<le> \<bar>real_of_int \<lfloor>real_of_int (getTime env) / 1000\<rfloor> - t\<bar>"
  shows "validateSlackRequest env ev tr = (Inr False, tr)"
proof -
  from assms(1,2) have "unaryPlus env (headers ev ''X-Slack-Request-Timestamp'') = Num t"
    by (simp add: unaryPlus_def)
  moreover from assms(3) have "\<not> validateTimestamp env (Num t)"
    by (simp add: validateTimestamp_def MILLIS_IN_SEC_def FIVE_MIN_IN_SEC_def)
  ultimately show ?thesis
    by (simp add: validateSlackRequest_def resolve_def)
qed

text \<open>
  An instance: a request that is exactly 300 seconds old and carries the correct
  signature for its timestamp and body.
\<close>

theorem stale_timestamp_rejected_witness:
  "hmac_sha256_hex demo_env ''shhh'' (''v0:1599999700:'' @ demo_body) = stale_digest
   \<and> validateSlackRequest demo_env (request ''1599999700'' (''v0='' @ stale_digest) demo_body) []
       = (Inr False, [])"
  using stale_timestamp_rejected [of "request ''1599999700'' (''v0='' @ stale_digest) demo_body"
      "''1599999700''" demo_env 1599999700 "[]"]
  by (simp add: request_def demo_env_def)

text \<open>
  C7. When the timestamp header is absent, or present with a value that converts to
  NaN, the authenticator returns false; it makes no call and never answers true.
\<close>

theorem unparsed_timestamp_fails_closed:
  assumes "headers ev ''X-Slack-Request-Timestamp'' = None
           \<or> (\<exists>s. headers ev ''X-Slack-Request-Timestamp'' = Some s
                    \<and> StringToNumber env s = NaN)"
  shows "validateSlackRequest env ev tr = (Inr False, tr)"
proof -
  from assms have "unaryPlus env (headers ev ''X-Slack-Request-Timestamp'') = NaN"
    by (auto simp: unaryPlus_def)
  then show ?thesis
    by (simp add: validateSlackRequest_def validateTimestamp_NaN resolve_def)
qed

theorem unparsed_timestamp_fails_closed_witness:
  "validateSlackRequest demo_env
     \<lparr>headers = [''X-Slack-Signature'' \<mapsto> ''v0='' @ demo_digest], body = demo_body\<rparr> []
     = (Inr False, [])
   \<and> StringToNumber demo_env ''soon'' = NaN
   \<and> validateSlackRequest demo_env (request ''soon'' (''v0='' @ demo_digest) demo_body) []
       = (Inr False, [])"
  using
    unparsed_timestamp_fails_closed
      [of "\<lparr>headers = [''X-Slack-Signature'' \<mapsto> ''v0='' @ demo_digest], body = demo_body\<rparr>"
          demo_env "[]"]
    unparsed_timestamp_fails_closed
      [of "request ''soon'' (''v0='' @ demo_digest) demo_body" demo_env "[]"]
  by (simp add: request_def demo_env_def)

section \<open>Properties of the tokenizer and of the command handlers\<close>

text \<open>
  C4. The claim: the command below tokenizes to \<^verbatim>\<open>set\<close> followed by the arguments
  \<^verbatim>\<open>meeting=Team Sync\<close> and \<^verbatim>\<open>emoji=\<close> with the calendar emoji, the quoted value unwrapped
  from its double quotes. The code does not unwrap it: the pattern has an alternative
  for exactly this quoted form (the form the guidance text of \<^verbatim>\<open>set\<close> tells the user to
  type), but \<^verbatim>\<open>match\<close> returns the whole match, so the token that comes out is
  \<^verbatim>\<open>meeting="Team Sync"\<close> with both quotes still in it.
\<close>

theorem tokenize_quoted_keeps_quotes:
  \<open>tokenize team_sync_command
     = [''set'', ''meeting="Team Sync"'', ''emoji='' @ [CHR 0xF0, CHR 0x9F, CHR 0x93, CHR 0x85]]\<close>
  by (simp add: team_sync_command_def matchToken_def matchQuoted_def matchBare_def
      isWordChar_def notQuote_def notSpaceOrQuote_def)

text \<open>
  So the argument list is not the one of the claim, and the meeting name that \<^verbatim>\<open>set\<close>
  reads from it, and stores as \<^verbatim>\<open>calendarText\<close>, carries the quotes. The other
  alternative of the pattern never lets a quote into a token: a quote inside an
  unquoted value ends the token and is dropped.
\<close>

lemma tokenize_quoted_not_unwrapped:
  \<open>drop 1 (tokenize team_sync_command)
     \<noteq> [''meeting=Team Sync'', ''emoji='' @ [CHR 0xF0, CHR 0x9F, CHR 0x93, CHR 0x85]]\<close>
  by (simp add: team_sync_command_def matchToken_def matchQuoted_def matchBare_def
      isWordChar_def notQuote_def notSpaceOrQuote_def)

lemma quoted_meeting_is_read_with_quotes:
  \<open>getProp (readArgs setDefaults
              [''meeting="Team Sync"'', ''emoji='' @ [CHR 0xF0, CHR 0x9F, CHR 0x93, CHR 0x85]])
       ''meeting''
     = Some ''"Team Sync"''\<close>
  by (simp add: readArgs_def setDefaults_def getProp_def destructure2_def)

lemma bare_token_drops_quotes:
  \<open>tokenize ''set meeting=Stand"up'' = [''set'', ''meeting=Stand'', ''up'']\<close>
  by (simp add: matchToken_def matchQuoted_def matchBare_def
      isWordChar_def notQuote_def notSpaceOrQuote_def)

text \<open>
  C3. The claim: \<^verbatim>\<open>remove\<close> deletes the mapping whose \<^verbatim>\<open>calendarText\<close> matches the given
  meeting name without regard to case. The handler is a stub: asked to remove
  \<^verbatim>\<open>standup\<close> from settings that hold the mapping \<^verbatim>\<open>Standup\<close>, it leaves the settings as
  they are, which is not what \<open>removeMapping_spec\<close> gives.
\<close>

theorem handleRemove_counterexample:
  "handleRemove demo_settings [''meeting=standup''] []
     = (Inr (''Not implemented'', demo_settings), [])
   \<and> demo_settings \<noteq> removeMapping_spec asciiLower ''standup'' demo_settings"
  by (simp add: handleRemove_def resolve_def demo_settings_def removeMapping_spec_def
      asciiLower_def)

text \<open>
  C3, amended. For every settings object and argument list, \<^verbatim>\<open>remove\<close> returns the text
  \<^verbatim>\<open>Not implemented\<close>, leaves the settings (so also \<^verbatim>\<open>statusMappings\<close>) unchanged and
  makes no call.
\<close>

theorem handleRemove_is_a_stub:
  "handleRemove userSettings args tr = (Inr (''Not implemented'', userSettings), tr)"
  by (simp add: handleRemove_def resolve_def)

subsection \<open>The argument loop\<close>

lemma split_head_prefix: "split sep s = p # ps \<Longrightarrow> \<exists>r. s = p @ r"
  by (induction s arbitrary: p ps) (auto split: if_splits list.splits)

lemma split_two_pieces: "split sep s = p # q # qs \<Longrightarrow> \<exists>r. s = p @ sep # q @ r"
proof (induction s arbitrary: p)
  case Nil
  then show ?case by simp
next
  case (Cons c cs)
  show ?case
  proof (cases "c = sep")
    case True
    with Cons.prems have "p = []" and "split sep cs = q # qs" by auto
    with True split_head_prefix [of sep cs q qs] show ?thesis by auto
  next
    case False
    with Cons.prems obtain p' where "p = c # p'" and "split sep cs = p' # q # qs"
      by (auto split: list.splits)
    with Cons.IH [of p'] show ?thesis by auto
  qed
qed

lemma readArgs_Cons:
  "readArgs d (a # as) =
     readArgs (case destructure2 (split CHR ''='' a) of
                 (Some key, val) \<Rightarrow> if d key \<noteq> None then d(key \<mapsto> val) else d
               | (None, _) \<Rightarrow> d) as"
  by (simp add: readArgs_def)

lemma readArgs_meeting_falsy:
  assumes "\<forall>a\<in>set args. \<forall>v. destructure2 (split CHR ''='' a) = (Some ''meeting'', v) \<longrightarrow> falsy v"
    and "falsy (getProp d ''meeting'')"
  shows "falsy (getProp (readArgs d args) ''meeting'')"
  using assms
proof (induction args arbitrary: d)
  case Nil
  then show ?case by (simp add: readArgs_def)
next
  case (Cons a as)
  obtain k v where kv: "destructure2 (split CHR ''='' a) = (k, v)"
    by (cases "destructure2 (split CHR ''='' a)")
  let ?d = "case destructure2 (split CHR ''='' a) of
              (Some key, val) \<Rightarrow> if d key \<noteq> None then d(key \<mapsto> val) else d
            | (None, _) \<Rightarrow> d"
  have "falsy (getProp ?d ''meeting'')"
  proof (cases "k = Some ''meeting'' \<and> d ''meeting'' \<noteq> None")
    case True
    with kv Cons.prems(1) have "falsy v" by simp
    with True kv show ?thesis by (simp add: getProp_def)
  next
    case False
    with kv have "getProp ?d ''meeting'' = getProp d ''meeting''"
      by (cases k) (auto simp: getProp_def)
    with Cons.prems(2) show ?thesis by simp
  qed
  moreover from Cons.prems(1)
  have "\<forall>a\<in>set as. \<forall>v. destructure2 (split CHR ''='' a) = (Some ''meeting'', v) \<longrightarrow> falsy v"
    by simp
  ultimately have "falsy (getProp (readArgs ?d as) ''meeting'')"
    by (rule Cons.IH [rotated])
  then show ?case by (simp only: readArgs_Cons)
qed

lemma handleSet_guidance:
  assumes "falsy (getProp (readArgs setDefaults args) ''meeting'')"
  shows "handleSet env userSettings args tr = (Inr (setGuidance, userSettings), tr)"
  using assms
  by (auto simp: handleSet_def Let_def falsy_def resolve_def split: option.splits)

text \<open>
  C8. When no argument has the form \<^verbatim>\<open>meeting=\<close> followed by a non-empty value, the
  \<^verbatim>\<open>set\<close> command returns the guidance text, hands back the settings object exactly as
  it received it (so \<^verbatim>\<open>statusMappings\<close> is unchanged), and makes no call: the list of
  collaborator calls is the one it started with.
\<close>

theorem handleSet_without_meeting:
  assumes "\<forall>a\<in>set args. \<forall>v. a = ''meeting='' @ v \<longrightarrow> v = []"
  shows "handleSet env userSettings args tr = (Inr (setGuidance, userSettings), tr)"
proof -
  have "\<forall>a\<in>set args. \<forall>v. destructure2 (split CHR ''='' a) = (Some ''meeting'', v) \<longrightarrow> falsy v"
  proof (intro ballI allI impI)
    fix a v
    assume a: "a \<in> set args" and d: "destructure2 (split CHR ''='' a) = (Some ''meeting'', v)"
    show "falsy v"
    proof (cases v)
      case None
      then show ?thesis by (simp add: falsy_def)
    next
      case (Some w)
      with d obtain qs where "split CHR ''='' a = ''meeting'' # w # qs"
        by (auto simp: destructure2_def split: list.splits)
      then obtain r where "a = ''meeting'' @ CHR ''='' # w @ r"
        using split_two_pieces by blast
      then have "a = ''meeting='' @ (w @ r)" by simp
      with a assms have "w @ r = []" by blast
      with Some show ?thesis by (simp add: falsy_def)
    qed
  qed
  then have "falsy (getProp (readArgs setDefaults args) ''meeting'')"
    by (rule readArgs_meeting_falsy) (simp add: setDefaults_def getProp_def falsy_def)
  then show ?thesis by (rule handleSet_guidance)
qed

theorem handleSet_without_meeting_witness:
  "handleSet demo_env demo_settings [''emoji=:walking:'', ''meeting='', ''meeting''] []
     = (Inr (setGuidance, demo_settings), [])"
  using handleSet_without_meeting
    [of "[''emoji=:walking:'', ''meeting='', ''meeting'']" demo_env demo_settings "[]"]
  by simp

subsection \<open>Updating a mapping in place\<close>

lemma snd_await_perform:
  "snd (await (perform c answer) (\<lambda>x. resolve (f x)) tr) = tr @ [c]"
  by (cases answer) (simp_all add: promise_defs)

lemma assignSlackStatus_calendarText:
  "map (\<lambda>m. f (calendarText m)) (assignSlackStatus p st ms) = map (\<lambda>m. f (calendarText m)) ms"
  by (induction ms) auto

lemma assignSlackStatus_at:
  assumes "i < length ms" and "p (ms ! i)" and "\<forall>j<i. \<not> p (ms ! j)"
  shows "assignSlackStatus p st ms = ms[i := (ms ! i)\<lparr>slackStatus := st\<rparr>]"
  using assms
proof (induction ms arbitrary: i)
  case Nil
  then show ?case by simp
next
  case (Cons m ms)
  show ?case
  proof (cases i)
    case 0
    with Cons.prems show ?thesis by simp
  next
    case (Suc k)
    with Cons.prems have "\<not> p m" by auto
    moreover from Suc Cons.prems have "k < length ms" "p (ms ! k)" "\<forall>j<k. \<not> p (ms ! j)"
      by auto
    ultimately show ?thesis using Suc Cons.IH [of k] by simp
  qed
qed

lemma distinct_key_unique:
  assumes "distinct (map f ms)" and "i < length ms" and "j < length ms"
    and "f (ms ! i) = f (ms ! j)"
  shows "i = j"
proof -
  from assms have "map f ms ! i = map f ms ! j" by simp
  with assms(1-3) show ?thesis
    by (metis length_map nth_eq_iff_index_eq)
qed

text \<open>
  C5. Assume the mappings of the settings have pairwise distinct lower-cased
  \<^verbatim>\<open>calendarText\<close> values, and the arguments give a non-empty meeting name. Then \<^verbatim>\<open>set\<close>
  makes exactly one call, the persistence of the settings with a new list of mappings,
  and in that list the lower-cased \<^verbatim>\<open>calendarText\<close> values are still pairwise distinct.
  If the mapping at some position matches the meeting up to case, the new list is the
  old one with the status at that position replaced (same length, same position, the
  stored \<^verbatim>\<open>calendarText\<close> untouched); if no mapping matches, the new list is the old one
  followed by one mapping for the meeting.
\<close>

theorem handleSet_keeps_calendarText_unique:
  assumes d: "d = readArgs setDefaults args"
    and st: "st = \<lparr>status_text = (if \<not> falsy (getProp d ''message'')
                                    then getProp d ''message'' else Some meeting),
                   emoji = getProp d ''emoji''\<rparr>"
    and meeting: "getProp d ''meeting'' = Some meeting" "meeting \<noteq> []"
    and uniq: "caseInsensitivelyDistinct env (mappingsOf userSettings)"
  shows "\<exists>ms'. snd (handleSet env userSettings args tr)
                   = tr @ [UpsertStatusMappings (userSettings\<lparr>statusMappings := Some ms'\<rparr>)]
           \<and> caseInsensitivelyDistinct env ms'
           \<and> (\<forall>i<length (mappingsOf userSettings).
                 toLowerCase env (calendarText (mappingsOf userSettings ! i))
                   = toLowerCase env meeting
                 \<longrightarrow> ms' = (mappingsOf userSettings)
                             [i := (mappingsOf userSettings ! i)\<lparr>slackStatus := st\<rparr>])
           \<and> ((\<forall>m\<in>set (mappingsOf userSettings).
                  toLowerCase env (calendarText m) \<noteq> toLowerCase env meeting)
                 \<longrightarrow> ms' = mappingsOf userSettings @ [\<lparr>calendarText = meeting, slackStatus = st\<rparr>])"
proof -
  let ?ms = "mappingsOf userSettings"
  let ?key = "\<lambda>m. toLowerCase env (calendarText m)"
  let ?p = "\<lambda>m. ?key m = toLowerCase env meeting"
  let ?ms' = "case find ?p ?ms of
                Some existingMeeting \<Rightarrow> assignSlackStatus ?p st ?ms
              | None \<Rightarrow> ?ms @ [\<lparr>calendarText = meeting, slackStatus = st\<rparr>]"
  have run: "snd (handleSet env userSettings args tr)
               = tr @ [UpsertStatusMappings (userSettings\<lparr>statusMappings := Some ?ms'\<rparr>)]"
    using meeting unfolding d st
    by (simp add: handleSet_def Let_def snd_await_perform)
  have dist: "distinct (map ?key ?ms)"
    using uniq by (simp add: caseInsensitivelyDistinct_def)
  have keep: "caseInsensitivelyDistinct env ?ms'"
  proof (cases "find ?p ?ms")
    case None
    then have "\<forall>m\<in>set ?ms. ?key m \<noteq> toLowerCase env meeting"
      by (auto simp: find_None_iff)
    with None dist show ?thesis
      by (auto simp: caseInsensitivelyDistinct_def)
  next
    case (Some x)
    have "map ?key (assignSlackStatus ?p st ?ms) = map ?key ?ms"
      by (rule assignSlackStatus_calendarText)
    with Some dist show ?thesis
      by (simp add: caseInsensitivelyDistinct_def)
  qed
  have hit: "?ms' = ?ms[i := (?ms ! i)\<lparr>slackStatus := st\<rparr>]"
    if i: "i < length ?ms" and pi: "?p (?ms ! i)" for i
  proof -
    from i pi have "\<exists>m\<in>set ?ms. ?p m" by (auto intro: nth_mem)
    then obtain x where f: "find ?p ?ms = Some x"
      by (cases "find ?p ?ms") (auto simp: find_None_iff)
    have "\<forall>j<i. \<not> ?p (?ms ! j)"
    proof (intro allI impI notI)
      fix j assume j: "j < i" and pj: "?p (?ms ! j)"
      with i pi have "?key (?ms ! i) = ?key (?ms ! j)" by simp
      with dist i j have "i = j"
        by (intro distinct_key_unique [of ?key ?ms i j]) auto
      with j show False by simp
    qed
    with i pi have "assignSlackStatus ?p st ?ms = ?ms[i := (?ms ! i)\<lparr>slackStatus := st\<rparr>]"
      by (rule assignSlackStatus_at)
    with f show ?thesis by simp
  qed
  have miss: "?ms' = ?ms @ [\<lparr>calendarText = meeting, slackStatus = st\<rparr>]"
    if "\<forall>m\<in>set ?ms. \<not> ?p m"
  proof -
    from that have "find ?p ?ms = None" by (simp add: find_None_iff)
    then show ?thesis by simp
  qed
  from run keep hit miss show ?thesis by blast
qed

text \<open>
  Two instances, on settings that hold the one mapping \<^verbatim>\<open>Standup\<close>: \<^verbatim>\<open>set\<close>
  with the meeting \<^verbatim>\<open>standup\<close>, which updates that mapping and keeps its spelling, and
  with the meeting \<^verbatim>\<open>Retro\<close>, which appends a mapping.
\<close>

theorem handleSet_keeps_calendarText_unique_witness:
  "caseInsensitivelyDistinct demo_env (mappingsOf demo_settings)
   \<and> snd (handleSet demo_env demo_settings [''meeting=standup'', ''emoji=:walking:''] [])
       = [UpsertStatusMappings
            (demo_settings\<lparr>statusMappings :=
               Some [\<lparr>calendarText = ''Standup'',
                      slackStatus = \<lparr>status_text = Some ''standup'',
                                     emoji = Some '':walking:''\<rparr>\<rparr>]\<rparr>)]
   \<and> snd (handleSet demo_env demo_settings [''meeting=Retro''] [])
       = [UpsertStatusMappings
            (demo_settings\<lparr>statusMappings :=
               Some [\<lparr>calendarText = ''Standup'',
                      slackStatus = \<lparr>status_text = Some ''Standup'', emoji = Some []\<rparr>\<rparr>,
                     \<lparr>calendarText = ''Retro'',
                      slackStatus = \<lparr>status_text = Some ''Retro'', emoji = Some []\<rparr>\<rparr>]\<rparr>)]"
proof -
  have uniq: "caseInsensitivelyDistinct demo_env (mappingsOf demo_settings)"
    by (simp add: caseInsensitivelyDistinct_def mappingsOf_def demo_settings_def)
  have ms: "mappingsOf demo_settings
              = [\<lparr>calendarText = ''Standup'',
                  slackStatus = \<lparr>status_text = Some ''Standup'', emoji = Some []\<rparr>\<rparr>]"
    by (simp add: mappingsOf_def demo_settings_def)
  have lower: "toLowerCase demo_env ''Standup'' = toLowerCase demo_env ''standup''"
    "toLowerCase demo_env ''Standup'' \<noteq> toLowerCase demo_env ''Retro''"
    by (simp_all add: demo_env_def asciiLower_def)
  have args1: "getProp (readArgs setDefaults [''meeting=standup'', ''emoji=:walking:'']) ''meeting''
                 = Some ''standup''"
    "getProp (readArgs setDefaults [''meeting=standup'', ''emoji=:walking:'']) ''message'' = Some []"
    "getProp (readArgs setDefaults [''meeting=standup'', ''emoji=:walking:'']) ''emoji''
       = Some '':walking:''"
    by (simp_all add: readArgs_def setDefaults_def getProp_def destructure2_def)
  have args2: "getProp (readArgs setDefaults [''meeting=Retro'']) ''meeting'' = Some ''Retro''"
    "getProp (readArgs setDefaults [''meeting=Retro'']) ''message'' = Some []"
    "getProp (readArgs setDefaults [''meeting=Retro'']) ''emoji'' = Some []"
    by (simp_all add: readArgs_def setDefaults_def getProp_def destructure2_def)
  from handleSet_keeps_calendarText_unique
    [of "readArgs setDefaults [''meeting=standup'', ''emoji=:walking:'']"
        "[''meeting=standup'', ''emoji=:walking:'']"
        "\<lparr>status_text = Some ''standup'', emoji = Some '':walking:''\<rparr>" "''standup''"
        demo_env demo_settings "[]"]
  have one: "snd (handleSet demo_env demo_settings [''meeting=standup'', ''emoji=:walking:''] [])
       = [UpsertStatusMappings
            (demo_settings\<lparr>statusMappings :=
               Some [\<lparr>calendarText = ''Standup'',
                      slackStatus = \<lparr>status_text = Some ''standup'',
                                     emoji = Some '':walking:''\<rparr>\<rparr>]\<rparr>)]"
    using uniq lower by (auto simp: args1 ms falsy_def)
  from handleSet_keeps_calendarText_unique
    [of "readArgs setDefaults [''meeting=Retro'']" "[''meeting=Retro'']"
        "\<lparr>status_text = Some ''Retro'', emoji = Some []\<rparr>" "''Retro''"
        demo_env demo_settings "[]"]
  have two: "snd (handleSet demo_env demo_settings [''meeting=Retro''] [])
       = [UpsertStatusMappings
            (demo_settings\<lparr>statusMappings :=
               Some [\<lparr>calendarText = ''Standup'',
                      slackStatus = \<lparr>status_text = Some ''Standup'', emoji = Some []\<rparr>\<rparr>,
                     \<lparr>calendarText = ''Retro'',
                      slackStatus = \<lparr>status_text = Some ''Retro'', emoji = Some []\<rparr>\<rparr>]\<rparr>)]"
    using uniq lower by (auto simp: args2 ms falsy_def)
  from uniq one two show ?thesis by simp
qed

section \<open>Properties of the event router\<close>

text \<open>
  C9. For a callback whose event has the subtype \<^verbatim>\<open>bot_message\<close>, or has no user
  identifier (the field is missing or empty), \<open>handleSlackEventCallback\<close> resolves
  with the empty response body, and the list of collaborator calls is the one it
  started with: no secret, profile or settings is fetched, nothing is persisted and no
  message is sent.
\<close>

theorem bot_message_ignored:
  assumes "event callback = Some e"
    and "subtype e = Some ''bot_message'' \<or> user e = None \<or> user e = Some []"
  shows "handleSlackEventCallback env callback tr = (Inr EMPTY_RESPONSE_BODY, tr)"
  using assms
  by (auto simp: handleSlackEventCallback_def resolve_def falsy_def)

theorem bot_message_ignored_witness:
  "handleSlackEventCallback demo_env
     (demo_callback\<lparr>event := Some (demo_event\<lparr>subtype := Some ''bot_message''\<rparr>)\<rparr>) []
     = (Inr EMPTY_RESPONSE_BODY, [])
   \<and> handleSlackEventCallback demo_env
       (demo_callback\<lparr>event := Some (demo_event\<lparr>user := None\<rparr>)\<rparr>) []
       = (Inr EMPTY_RESPONSE_BODY, [])"
  using
    bot_message_ignored
      [of "demo_callback\<lparr>event := Some (demo_event\<lparr>subtype := Some ''bot_message''\<rparr>)\<rparr>"
          "demo_event\<lparr>subtype := Some ''bot_message''\<rparr>" demo_env "[]"]
    bot_message_ignored
      [of "demo_callback\<lparr>event := Some (demo_event\<lparr>user := None\<rparr>)\<rparr>"
          "demo_event\<lparr>user := None\<rparr>" demo_env "[]"]
  by simp

text \<open>
  Inside the top-level handler such an event follows the authenticator, which has
  fetched the signing secret; the routing adds no call to those of the authenticator
  and the response is HTTP 200 with the empty body.
\<close>

lemma handler_bot_message:
  assumes "JSON_parse env (body ev) = Some (JObject callback)"
    and "body_type callback = Some ''event_callback''"
    and "validateSlackRequest env ev tr = (Inr True, tr1)"
    and "event callback = Some e"
    and "subtype e = Some ''bot_message'' \<or> user e = None \<or> user e = Some []"
  shows "handler env ev tr
           = (Inr \<lparr>statusCode = 200, http_body = ResponseObject EMPTY_RESPONSE_BODY\<rparr>, tr1)"
proof -
  from assms(4,5) have "handleSlackEventCallback env callback tr1 = (Inr EMPTY_RESPONSE_BODY, tr1)"
    by (auto simp: handleSlackEventCallback_def resolve_def falsy_def)
  with assms(1-3) show ?thesis
    by (simp add: handler_def await_def resolve_def)
qed

text \<open>
  C10. When the body of the request is not valid JSON, the handler rejects with the
  SyntaxError of \<^verbatim>\<open>JSON.parse\<close> before the authenticator runs (no call is made, not
  even the fetch of the signing secret), whatever the headers are; in particular the
  request does not get the HTTP 400 response.
\<close>

theorem invalid_json_throws_before_authentication:
  assumes "JSON_parse env (body ev) = None"
  shows "handler env ev tr = (Inl SyntaxError, tr)
         \<and> fst (handler env ev tr)
             \<noteq> Inr \<lparr>statusCode = 400, http_body = ErrorObject ''Request was invalid''\<rparr>"
  using assms by (simp add: handler_def reject_def)

theorem invalid_json_throws_before_authentication_witness:
  "handler demo_env (request ''1600000000'' (''v0='' @ demo_digest) ''{not json'') []
     = (Inl SyntaxError, [])
   \<and> handler demo_env (request ''never'' ''v0'' ''{not json'') [] = (Inl SyntaxError, [])"
  using
    invalid_json_throws_before_authentication
      [of demo_env "request ''1600000000'' (''v0='' @ demo_digest) ''{not json''" "[]"]
    invalid_json_throws_before_authentication
      [of demo_env "request ''never'' ''v0'' ''{not json''" "[]"]
  by (simp add: demo_env_def request_def demo_body_def)

text \<open>
  C2. The claim: an exception raised while an \<^verbatim>\<open>event_callback\<close> is processed is caught
  by the top-level handler, which still returns HTTP 200. The handler has no
  \<^verbatim>\<open>try\<close>/\<^verbatim>\<open>catch\<close>. For the authentic request below the chat platform refuses the
  reply, \<open>handleSlackEventCallback\<close> rejects, and the handler rejects with the same
  exception instead of returning a response.
\<close>

theorem handler_exception_counterexample:
  "validateSlackRequest failing_env (request ''1600000000'' (''v0='' @ demo_digest) demo_body) []
     = (Inr True, [GetSlackSecretWithKey ''signing-secret''])
   \<and> fst (handleSlackEventCallback failing_env demo_callback
            [GetSlackSecretWithKey ''signing-secret''])
       = Inl (Rejected ''ratelimited'')
   \<and> fst (handler failing_env (request ''1600000000'' (''v0='' @ demo_digest) demo_body) [])
       = Inl (Rejected ''ratelimited'')"
proof -
  have auth: "validateSlackRequest failing_env
                (request ''1600000000'' (''v0='' @ demo_digest) demo_body) []
                = (Inr True, [GetSlackSecretWithKey ''signing-secret''])"
    by (simp add: validateSlackRequest_def validateTimestamp_def unaryPlus_def request_def
        failing_env_def demo_env_def promise_defs timingSafeEqual_def destructure2_def
        MILLIS_IN_SEC_def FIVE_MIN_IN_SEC_def templ_def demo_digest_def)
  have tokens: "tokenize ''show'' = [''show'']"
    by (simp add: matchToken_def matchQuoted_def matchBare_def isWordChar_def
        notSpaceOrQuote_def)
  have run: "fst (handleSlackEventCallback failing_env demo_callback
                    [GetSlackSecretWithKey ''signing-secret''])
               = Inl (Rejected ''ratelimited'')"
    by (simp add: handleSlackEventCallback_def demo_callback_def demo_event_def
        failing_env_def demo_env_def demo_settings_def promise_defs falsy_def templ_def
        tokens commandHandlerMap_def handleShow_def serializeStatusMappings_def
        sendMessage_def Let_def del: tokenize.simps)
  have parse: "JSON_parse failing_env demo_body = Some (JObject demo_callback)"
    by (simp add: failing_env_def demo_env_def)
  from run obtain tr2 where
    "handleSlackEventCallback failing_env demo_callback [GetSlackSecretWithKey ''signing-secret'']
       = (Inl (Rejected ''ratelimited''), tr2)"
    by (cases "handleSlackEventCallback failing_env demo_callback
                 [GetSlackSecretWithKey ''signing-secret'']") simp
  with auth parse
  have "fst (handler failing_env (request ''1600000000'' (''v0='' @ demo_digest) demo_body) [])
          = Inl (Rejected ''ratelimited'')"
    by (simp add: handler_def await_def request_def demo_callback_def)
  with auth run show ?thesis by simp
qed

text \<open>
  C2, amended. For every \<^verbatim>\<open>event_callback\<close> payload of an authentic request, an
  exception raised during event processing is not caught: the handler rejects with that
  exception and returns no response. The handler returns HTTP 200, with the response
  body of the event processing, exactly when the event processing completes.
\<close>

theorem handler_propagates_exceptions:
  assumes "JSON_parse env (body ev) = Some (JObject callback)"
    and "body_type callback = Some ''event_callback''"
    and "validateSlackRequest env ev tr = (Inr True, tr1)"
  shows "handler env ev tr =
           (case handleSlackEventCallback env callback tr1 of
              (Inl exn, tr2) \<Rightarrow> (Inl exn, tr2)
            | (Inr responseBody, tr2) \<Rightarrow>
                (Inr \<lparr>statusCode = 200, http_body = ResponseObject responseBody\<rparr>, tr2))"
  using assms
  by (simp add: handler_def await_def resolve_def split: prod.splits sum.splits)

theorem handler_propagates_exceptions_witness:
  "fst (handler demo_env (request ''1600000000'' (''v0='' @ demo_digest) demo_body) [])
     = Inr \<lparr>statusCode = 200, http_body = ResponseObject EMPTY_RESPONSE_BODY\<rparr>"
proof -
  have auth: "validateSlackRequest demo_env
                (request ''1600000000'' (''v0='' @ demo_digest) demo_body) []
                = (Inr True, [GetSlackSecretWithKey ''signing-secret''])"
    by (simp add: validateSlackRequest_def validateTimestamp_def unaryPlus_def request_def
        demo_env_def promise_defs timingSafeEqual_def destructure2_def
        MILLIS_IN_SEC_def FIVE_MIN_IN_SEC_def templ_def demo_digest_def)
  have parse: "JSON_parse demo_env
                 (body (request ''1600000000'' (''v0='' @ demo_digest) demo_body))
                 = Some (JObject demo_callback)"
    by (simp add: demo_env_def request_def)
  have kind: "body_type demo_callback = Some ''event_callback''"
    by (simp add: demo_callback_def)
  have tokens: "tokenize ''show'' = [''show'']"
    by (simp add: matchToken_def matchQuoted_def matchBare_def isWordChar_def
        notSpaceOrQuote_def)
  have run: "fst (handleSlackEventCallback demo_env demo_callback
                    [GetSlackSecretWithKey ''signing-secret''])
               = Inr EMPTY_RESPONSE_BODY"
    by (simp add: handleSlackEventCallback_def demo_callback_def demo_event_def
        demo_env_def demo_settings_def promise_defs falsy_def templ_def
        tokens commandHandlerMap_def handleShow_def serializeStatusMappings_def
        sendMessage_def Let_def del: tokenize.simps)
  from handler_propagates_exceptions [OF parse kind auth] run show ?thesis
    by (simp split: prod.splits sum.splits)
qed

end
